theory Spec2Isabelle
  imports Main
begin

section \<open>Errors and results\<close>

text \<open>
  The exceptions a constructor or a forward pass of the model files can end in.
  \<open>RuntimeError\<close> is the tensor framework's shape validation error; the others are
  raised by Python itself (an \<open>assert\<close>, a call with the wrong number of arguments,
  an index out of range, an integer division by zero, a tuple unpacking of the wrong
  length, a read of an attribute that was never assigned).
\<close>

datatype error =
  AssertionError | TypeError | IndexError | ZeroDivisionError | ValueError
  | AttributeError | RuntimeError

definition and_then :: "error + 'a \<Rightarrow> ('a \<Rightarrow> error + 'b) \<Rightarrow> error + 'b" where
  "and_then r f = (case r of Inl e \<Rightarrow> Inl e | Inr v \<Rightarrow> f v)"

primrec map_e :: "('a \<Rightarrow> error + 'b) \<Rightarrow> 'a list \<Rightarrow> error + 'b list" where
  "map_e f [] = Inr []"
| "map_e f (x # xs) = and_then (f x) (\<lambda>y. and_then (map_e f xs) (\<lambda>ys. Inr (y # ys)))"

definition attr :: "'a option \<Rightarrow> error + 'a" where
  \<comment> \<open>reading an attribute that \<open>__init__\<close> assigned on one branch only\<close>
  "attr a = (case a of None \<Rightarrow> Inl AttributeError | Some v \<Rightarrow> Inr v)"

definition floordiv :: "nat \<Rightarrow> nat \<Rightarrow> error + nat" where
  \<comment> \<open>Python's \<open>a // b\<close> on non-negative integers\<close>
  "floordiv a b = (if b = 0 then Inl ZeroDivisionError else Inr (a div b))"

section \<open>The tensor framework\<close>

text \<open>
  The tensor runtime is an external collaborator: the model files only compose its
  operators. The operators are therefore a parameter of every forward pass, a record
  \<open>T\<close> over an arbitrary type \<open>'a\<close> of tensors. The fields carry the names the source
  uses (\<open>nn.Conv2d\<close>, \<open>F.relu\<close>, \<open>torch.cat\<close>, \<open>x.view\<close>, ...). \<open>DWT\<close> and
  \<open>IWT\<close> are the two classes the source imports from \<open>models.utils\<close>.
  A layer is identified by its hyper-parameters; its weights are not modelled.
  \<open>F_upsample h w\<close> is \<open>F.upsample(size=(h, w), mode='bilinear')\<close>, \<open>F_sigmoid\<close> stands
  for both \<open>F.sigmoid\<close> and \<open>torch.sigmoid\<close>, \<open>F_relu\<close> also for the module
  \<open>nn.ReLU()\<close>, and \<open>torch_cat xs d\<close> is \<open>torch.cat(xs, d)\<close>.
\<close>

record 'a torch =
  tensor_size :: "'a \<Rightarrow> nat list"
  nn_Conv2d :: "nat \<Rightarrow> nat \<Rightarrow> nat \<Rightarrow> nat \<Rightarrow> nat \<Rightarrow> 'a \<Rightarrow> error + 'a"
  nn_BatchNorm2d :: "nat \<Rightarrow> 'a \<Rightarrow> error + 'a"
  nn_LayerNorm :: "nat list \<Rightarrow> 'a \<Rightarrow> error + 'a"
  nn_PReLU :: "'a \<Rightarrow> error + 'a"
  nn_PixelShuffle :: "nat \<Rightarrow> 'a \<Rightarrow> error + 'a"
  nn_AdaptiveAvgPool2d :: "nat \<Rightarrow> nat \<Rightarrow> 'a \<Rightarrow> error + 'a"
  nn_Softmax :: "nat \<Rightarrow> 'a \<Rightarrow> error + 'a"
  F_relu :: "'a \<Rightarrow> 'a"
  F_sigmoid :: "'a \<Rightarrow> 'a"
  F_upsample :: "nat \<Rightarrow> nat \<Rightarrow> 'a \<Rightarrow> error + 'a"
  torch_cat :: "'a list \<Rightarrow> nat \<Rightarrow> error + 'a"
  torch_matmul :: "'a \<Rightarrow> 'a \<Rightarrow> error + 'a"
  tensor_add :: "'a \<Rightarrow> 'a \<Rightarrow> error + 'a"
  tensor_mul :: "'a \<Rightarrow> 'a \<Rightarrow> error + 'a"
  tensor_view :: "'a \<Rightarrow> nat list \<Rightarrow> error + 'a"
  tensor_unsqueeze :: "'a \<Rightarrow> nat \<Rightarrow> error + 'a"
  DWT :: "'a \<Rightarrow> error + 'a \<times> 'a"
  IWT :: "'a \<Rightarrow> error + 'a"

text \<open>
  The framework layers the source puts into \<open>nn.Sequential\<close> containers.
  \<open>Conv2d i o k s p\<close> is \<open>nn.Conv2d(i, o, kernel_size=k, stride=s, padding=p)\<close>
  (the framework's defaults are \<open>stride=1\<close>, \<open>padding=0\<close>).
\<close>

datatype layer =
  Conv2d nat nat nat nat nat
  | BatchNorm2d nat
  | LayerNorm "nat list"
  | PReLU
  | PixelShuffle nat
  | AdaptiveAvgPool2d nat nat
  | Softmax nat

fun layer_forward :: "'a torch \<Rightarrow> layer \<Rightarrow> 'a \<Rightarrow> error + 'a" where
  "layer_forward T (Conv2d i o' k s p) x = nn_Conv2d T i o' k s p x"
| "layer_forward T (BatchNorm2d c) x = nn_BatchNorm2d T c x"
| "layer_forward T (LayerNorm ns) x = nn_LayerNorm T ns x"
| "layer_forward T PReLU x = nn_PReLU T x"
| "layer_forward T (PixelShuffle r) x = nn_PixelShuffle T r x"
| "layer_forward T (AdaptiveAvgPool2d a b) x = nn_AdaptiveAvgPool2d T a b x"
| "layer_forward T (Softmax d) x = nn_Softmax T d x"

primrec Sequential_forward :: "'a torch \<Rightarrow> layer list \<Rightarrow> 'a \<Rightarrow> error + 'a" where
  "Sequential_forward T [] x = Inr x"
| "Sequential_forward T (l # ls) x = and_then (layer_forward T l x) (Sequential_forward T ls)"

section \<open>modules_4channel.py\<close>

subsection \<open>MakeDense\<close>

record MakeDense =
  md_conv :: layer
  md_norm_layer :: layer

definition MakeDense_init :: "nat \<Rightarrow> nat \<Rightarrow> nat \<Rightarrow> MakeDense" where
  \<comment> \<open>\<open>kernel_size\<close> is at least 1 (the default 3 at every call of the source)\<close>
  "MakeDense_init in_channels growth_rate kernel_size =
     \<lparr>md_conv = Conv2d in_channels growth_rate kernel_size 1 ((kernel_size - 1) div 2),
      md_norm_layer = BatchNorm2d growth_rate\<rparr>"

definition MakeDense_forward :: "'a torch \<Rightarrow> MakeDense \<Rightarrow> 'a \<Rightarrow> error + 'a" where
  "MakeDense_forward T m x =
     and_then (layer_forward T (md_conv m) x) (\<lambda>c.
     and_then (layer_forward T (md_norm_layer m) (F_relu T c)) (\<lambda>out.
     torch_cat T [x, out] 1))"

primrec MakeDense_Sequential :: "'a torch \<Rightarrow> MakeDense list \<Rightarrow> 'a \<Rightarrow> error + 'a" where
  "MakeDense_Sequential T [] x = Inr x"
| "MakeDense_Sequential T (m # ms) x =
     and_then (MakeDense_forward T m x) (MakeDense_Sequential T ms)"

subsection \<open>ContextBlock2d\<close>

record ContextBlock2d =
  cb_inplanes :: nat
  cb_planes :: nat
  cb_pool :: string
  cb_fusions :: "string list"
  cb_conv_mask :: "layer option"
  cb_softmax :: "layer option"
  cb_avg_pool :: "layer option"
  cb_channel_add_conv :: "layer list option"
  cb_channel_mul_conv :: "layer list option"

definition fusion_conv :: "nat \<Rightarrow> nat \<Rightarrow> nat \<Rightarrow> error + layer list" where
  \<comment> \<open>the four-layer container built for \<open>channel_add_conv\<close> and \<open>channel_mul_conv\<close>\<close>
  "fusion_conv inplanes planes ratio =
     and_then (floordiv planes ratio) (\<lambda>p.
     Inr [Conv2d inplanes p 1 1 0, LayerNorm [p, 1, 1], PReLU, Conv2d p inplanes 1 1 0])"

definition ContextBlock2d_init ::
  "nat \<Rightarrow> nat \<Rightarrow> string \<Rightarrow> string list \<Rightarrow> nat \<Rightarrow> error + ContextBlock2d" where
  \<comment> \<open>after the first assertion \<open>pool\<close> is \<open>avg\<close> or \<open>att\<close>, so that
      \<open>'att' in pool\<close> is \<open>pool = 'att'\<close>\<close>
  "ContextBlock2d_init inplanes planes pool fusions ratio =
     (if pool \<notin> set [''avg'', ''att''] then Inl AssertionError
      else if \<not> list_all (\<lambda>f. f \<in> set [''channel_add'', ''channel_mul'']) fusions
        then Inl AssertionError
      else if \<not> length fusions > 0 then Inl AssertionError
      else
        and_then (if ''channel_add'' \<in> set fusions
                  then and_then (fusion_conv inplanes planes ratio) (\<lambda>c. Inr (Some c))
                  else Inr None) (\<lambda>add_conv.
        and_then (if ''channel_mul'' \<in> set fusions
                  then and_then (fusion_conv inplanes planes ratio) (\<lambda>c. Inr (Some c))
                  else Inr None) (\<lambda>mul_conv.
        Inr \<lparr>cb_inplanes = inplanes, cb_planes = planes, cb_pool = pool,
             cb_fusions = fusions,
             cb_conv_mask = (if pool = ''att'' then Some (Conv2d inplanes 1 1 1 0) else None),
             cb_softmax = (if pool = ''att'' then Some (Softmax 2) else None),
             cb_avg_pool = (if pool = ''att'' then None else Some (AdaptiveAvgPool2d 1 1)),
             cb_channel_add_conv = add_conv,
             cb_channel_mul_conv = mul_conv\<rparr>)))"

definition ContextBlock2d_cls :: "nat \<Rightarrow> nat \<Rightarrow> error + ContextBlock2d" where
  \<comment> \<open>the class called as \<open>att_block(inplanes=.., planes=..)\<close>, the other arguments
      at their defaults\<close>
  "ContextBlock2d_cls inplanes planes =
     ContextBlock2d_init inplanes planes ''att'' [''channel_add''] 4"

definition spatial_pool :: "'a torch \<Rightarrow> ContextBlock2d \<Rightarrow> 'a \<Rightarrow> error + 'a" where
  "spatial_pool T m x =
     (case tensor_size T x of
        [batch, channel, height, width] \<Rightarrow>
          if cb_pool m = ''att'' then
            and_then (tensor_view T x [batch, channel, height * width]) (\<lambda>input_x.
            and_then (tensor_unsqueeze T input_x 1) (\<lambda>input_x.
            and_then (attr (cb_conv_mask m)) (\<lambda>conv_mask.
            and_then (layer_forward T conv_mask x) (\<lambda>context_mask.
            and_then (tensor_view T context_mask [batch, 1, height * width]) (\<lambda>context_mask.
            and_then (attr (cb_softmax m)) (\<lambda>softmax.
            and_then (layer_forward T softmax context_mask) (\<lambda>context_mask.
            and_then (tensor_unsqueeze T context_mask 3) (\<lambda>context_mask.
            and_then (torch_matmul T input_x context_mask) (\<lambda>context.
            tensor_view T context [batch, channel, 1, 1])))))))))
          else
            and_then (attr (cb_avg_pool m)) (\<lambda>avg_pool. layer_forward T avg_pool x)
      | _ \<Rightarrow> Inl ValueError)"

definition ContextBlock2d_forward :: "'a torch \<Rightarrow> ContextBlock2d \<Rightarrow> 'a \<Rightarrow> error + 'a" where
  "ContextBlock2d_forward T m x =
     and_then (spatial_pool T m x) (\<lambda>context.
     and_then (case cb_channel_mul_conv m of
                 Some mul_conv \<Rightarrow>
                   and_then (Sequential_forward T mul_conv context) (\<lambda>t.
                   tensor_mul T x (F_sigmoid T t))
               | None \<Rightarrow> Inr x) (\<lambda>out.
     case cb_channel_add_conv m of
       Some add_conv \<Rightarrow>
         and_then (Sequential_forward T add_conv context) (\<lambda>channel_add_term.
         tensor_add T out channel_add_term)
     | None \<Rightarrow> Inr out))"

subsection \<open>GCRDB\<close>

record GCRDB =
  residual_dense_layers :: "MakeDense list"
  conv_1x1 :: layer
  final_att :: ContextBlock2d

primrec dense_modules :: "nat \<Rightarrow> nat \<Rightarrow> nat \<Rightarrow> MakeDense list \<times> nat" where
  \<comment> \<open>the loop of \<open>GCRDB.__init__\<close>: the modules appended and the final value of
      the counter \<open>_in_channels\<close>, written \<open>in_channels'\<close> here\<close>
  "dense_modules 0 in_channels' growth_rate = ([], in_channels')"
| "dense_modules (Suc n) in_channels' growth_rate =
     (case dense_modules n (in_channels' + growth_rate) growth_rate of
        (modules, c) \<Rightarrow> (MakeDense_init in_channels' growth_rate 3 # modules, c))"

definition GCRDB_init ::
  "nat \<Rightarrow> (nat \<Rightarrow> nat \<Rightarrow> error + ContextBlock2d) \<Rightarrow> nat \<Rightarrow> nat \<Rightarrow> error + GCRDB" where
  "GCRDB_init in_channels att_block num_dense_layer growth_rate =
     (case dense_modules num_dense_layer in_channels growth_rate of
        (modules, in_channels') \<Rightarrow>
          and_then (att_block in_channels in_channels) (\<lambda>att.
          Inr \<lparr>residual_dense_layers = modules,
               conv_1x1 = Conv2d in_channels' in_channels 1 1 0,
               final_att = att\<rparr>))"

definition GCRDB_forward :: "'a torch \<Rightarrow> GCRDB \<Rightarrow> 'a \<Rightarrow> error + 'a" where
  "GCRDB_forward T m x =
     and_then (MakeDense_Sequential T (residual_dense_layers m) x) (\<lambda>out_rdb.
     and_then (layer_forward T (conv_1x1 m) out_rdb) (\<lambda>out_rdb.
     and_then (ContextBlock2d_forward T (final_att m) out_rdb) (\<lambda>out_rdb.
     tensor_add T out_rdb x)))"

subsection \<open>SE_net\<close>

record SE_net =
  se_attention :: bool
  se_avg_pool :: layer
  se_conv_in :: layer
  se_conv_mid :: layer
  se_conv_out :: layer
  se_x_red :: layer

definition SE_net_init :: "nat \<Rightarrow> nat \<Rightarrow> nat \<Rightarrow> bool \<Rightarrow> error + SE_net" where
  "SE_net_init in_channels out_channels reduction attention =
     and_then (floordiv in_channels reduction) (\<lambda>mid.
     Inr \<lparr>se_attention = attention,
          se_avg_pool = AdaptiveAvgPool2d 1 1,
          se_conv_in = Conv2d in_channels in_channels 1 1 0,
          se_conv_mid = Conv2d in_channels mid 1 1 0,
          se_conv_out = Conv2d mid out_channels 1 1 0,
          se_x_red = Conv2d in_channels out_channels 1 1 0\<rparr>)"

definition SE_net_forward :: "'a torch \<Rightarrow> SE_net \<Rightarrow> 'a \<Rightarrow> error + 'a" where
  "SE_net_forward T m x =
     (if se_attention m then
        and_then (layer_forward T (se_avg_pool m) x) (\<lambda>y.
        and_then (layer_forward T (se_conv_in m) y) (\<lambda>y.
        and_then (layer_forward T (se_conv_mid m) (F_relu T y)) (\<lambda>y.
        and_then (layer_forward T (se_conv_out m) (F_relu T y)) (\<lambda>y.
        and_then (layer_forward T (se_x_red m) x) (\<lambda>x.
        tensor_mul T x (F_sigmoid T y))))))
      else Inr x)"

subsection \<open>GCWTResDown\<close>

record GCWTResDown =
  down_stem :: "layer list"
  down_conv1x1 :: layer
  down_conv_down :: layer

definition GCWTResDown_init :: "nat \<Rightarrow> (nat \<Rightarrow> layer) option \<Rightarrow> GCWTResDown" where
  \<comment> \<open>\<open>att_block\<close> is not used by the constructor; \<open>norm_layer\<close> is a layer class or
      \<open>None\<close>\<close>
  "GCWTResDown_init in_channels norm_layer =
     \<lparr>down_stem =
        (case norm_layer of
           Some norm \<Rightarrow>
             [Conv2d in_channels in_channels 3 2 1, norm in_channels, PReLU,
              Conv2d in_channels in_channels 3 1 1, norm in_channels, PReLU]
         | None \<Rightarrow>
             [Conv2d in_channels in_channels 3 2 1, PReLU,
              Conv2d in_channels in_channels 3 1 1, PReLU]),
      down_conv1x1 = Conv2d in_channels in_channels 1 1 0,
      down_conv_down = Conv2d in_channels in_channels 3 2 1\<rparr>"

definition GCWTResDown_forward :: "'a torch \<Rightarrow> GCWTResDown \<Rightarrow> 'a \<Rightarrow> error + 'a \<times> 'a" where
  "GCWTResDown_forward T m x =
     and_then (Sequential_forward T (down_stem m) x) (\<lambda>stem.
     and_then (DWT T x) (\<lambda>(xLL, dwt).
     and_then (layer_forward T (down_conv1x1 m) xLL) (\<lambda>res.
     and_then (torch_cat T [stem, res] 1) (\<lambda>out.
     Inr (out, dwt)))))"

subsection \<open>GCIWTResUp\<close>

record GCIWTResUp =
  up_stem :: "layer list"
  up_pre_conv_stem :: layer
  up_pre_conv :: layer
  up_post_conv :: layer
  up_last_conv :: layer

definition GCIWTResUp_init :: "nat \<Rightarrow> (nat \<Rightarrow> layer) option \<Rightarrow> GCIWTResUp" where
  "GCIWTResUp_init in_channels norm_layer =
     \<lparr>up_stem =
        (case norm_layer of
           Some norm \<Rightarrow>
             [PixelShuffle 2,
              Conv2d (in_channels div 4) (in_channels div 4) 3 1 1,
              norm (in_channels div 4), PReLU,
              Conv2d (in_channels div 4) (in_channels div 4) 3 1 1,
              norm (in_channels div 4), PReLU]
         | None \<Rightarrow>
             [PixelShuffle 2,
              Conv2d (in_channels div 4) (in_channels div 4) 3 1 1, PReLU,
              Conv2d (in_channels div 4) (in_channels div 4) 3 1 1, PReLU]),
      up_pre_conv_stem = Conv2d (in_channels div 2) in_channels 1 1 0,
      up_pre_conv = Conv2d in_channels in_channels 1 1 0,
      up_post_conv = Conv2d (in_channels div 4) (in_channels div 4) 1 1 0,
      up_last_conv = Conv2d (in_channels div 2) (in_channels div 4) 1 1 0\<rparr>"

definition GCIWTResUp_forward :: "'a torch \<Rightarrow> GCIWTResUp \<Rightarrow> 'a \<Rightarrow> 'a \<Rightarrow> error + 'a" where
  "GCIWTResUp_forward T m x x_dwt =
     and_then (layer_forward T (up_pre_conv_stem m) x) (\<lambda>x.
     and_then (Sequential_forward T (up_stem m) x) (\<lambda>stem.
     and_then (layer_forward T (up_pre_conv m) x_dwt) (\<lambda>x_dwt.
     and_then (IWT T x_dwt) (\<lambda>x_iwt.
     and_then (layer_forward T (up_post_conv m) x_iwt) (\<lambda>x_iwt.
     and_then (torch_cat T [stem, x_iwt] 1) (\<lambda>out.
     layer_forward T (up_last_conv m) out))))))"

subsection \<open>shortcutblock\<close>

record shortcutblock =
  sc_conv1 :: layer
  sc_conv2 :: layer
  sc_se :: SE_net

fun shortcutblock_init :: "nat list \<Rightarrow> error + shortcutblock" where
  \<comment> \<open>the argument is the list of positional arguments of the call: the constructor
      has two required parameters, and Python raises TypeError on any other number\<close>
  "shortcutblock_init [in_channels, out_channels] =
     and_then (SE_net_init out_channels out_channels 4 True) (\<lambda>se.
     Inr \<lparr>sc_conv1 = Conv2d in_channels out_channels 3 1 1,
          sc_conv2 = Conv2d out_channels out_channels 3 1 1,
          sc_se = se\<rparr>)"
| "shortcutblock_init _ = Inl TypeError"

definition shortcutblock_forward :: "'a torch \<Rightarrow> shortcutblock \<Rightarrow> 'a \<Rightarrow> error + 'a" where
  "shortcutblock_forward T m x =
     and_then (layer_forward T (sc_conv1 m) x) (\<lambda>y.
     and_then (layer_forward T (sc_conv2 m) (F_relu T y)) (\<lambda>y.
     SE_net_forward T (sc_se m) (F_relu T y)))"

subsection \<open>PSPModule\<close>

record PSPModule =
  psp_stages :: "layer list list"
  psp_bottleneck :: layer

definition make_stage :: "nat \<Rightarrow> nat \<Rightarrow> layer list" where
  "make_stage features size' = [AdaptiveAvgPool2d size' size', Conv2d features features 1 1 0]"

definition PSPModule_init :: "nat \<Rightarrow> nat \<Rightarrow> nat list \<Rightarrow> PSPModule" where
  "PSPModule_init features out_features sizes =
     \<lparr>psp_stages = map (make_stage features) sizes,
      psp_bottleneck = Conv2d (features * (length sizes + 1)) out_features 1 1 0\<rparr>"

definition PSPModule_forward :: "'a torch \<Rightarrow> PSPModule \<Rightarrow> 'a \<Rightarrow> error + 'a" where
  \<comment> \<open>\<open>feats.size(2)\<close> and \<open>feats.size(3)\<close> raise IndexError on a tensor of fewer
      dimensions\<close>
  "PSPModule_forward T m feats =
     (case tensor_size T feats of
        _ # _ # h # w # _ \<Rightarrow>
          and_then (map_e (\<lambda>stage. and_then (Sequential_forward T stage feats) (F_upsample T h w))
                      (psp_stages m)) (\<lambda>ups.
          and_then (torch_cat T (ups @ [feats]) 1) (\<lambda>priors.
          and_then (layer_forward T (psp_bottleneck m) priors) (\<lambda>bottle.
          Inr (F_relu T bottle))))
      | _ \<Rightarrow> Inl IndexError)"

subsection \<open>last_upsample\<close>




section \<open>model_3channel.py\<close>

text \<open>
  \<open>layer1\<close> to \<open>layer4\<close> are \<open>nn.Sequential\<close> containers of \<open>block[i]\<close> dense
  blocks followed by one downsampling block, which returns a pair; they are kept as the
  list of the dense blocks and the downsampling block. \<open>layer5\<close> is a container of
  dense blocks only.
\<close>

primrec GCRDB_Sequential :: "'a torch \<Rightarrow> GCRDB list \<Rightarrow> 'a \<Rightarrow> error + 'a" where
  "GCRDB_Sequential T [] x = Inr x"
| "GCRDB_Sequential T (m # ms) x = and_then (GCRDB_forward T m x) (GCRDB_Sequential T ms)"

definition stage_forward ::
  "'a torch \<Rightarrow> GCRDB list \<times> GCWTResDown \<Rightarrow> 'a \<Rightarrow> error + 'a \<times> 'a" where
  "stage_forward T l x =
     and_then (GCRDB_Sequential T (fst l) x) (GCWTResDown_forward T (snd l))"

record AWNet =
  conv1 :: layer
  layer1 :: "GCRDB list \<times> GCWTResDown"
  layer2 :: "GCRDB list \<times> GCWTResDown"
  layer3 :: "GCRDB list \<times> GCWTResDown"
  layer4 :: "GCRDB list \<times> GCWTResDown"
  layer5 :: "GCRDB list"
  layer4_up :: GCIWTResUp
  layer3_up :: GCIWTResUp
  layer2_up :: GCIWTResUp
  layer1_up :: GCIWTResUp
  sc_x1 :: shortcutblock
  sc_x2 :: shortcutblock
  sc_x3 :: shortcutblock
  sc_x4 :: shortcutblock
  scale_5 :: layer
  scale_4 :: layer
  scale_3 :: layer
  scale_2 :: layer
  final_conv :: layer
  se1 :: SE_net
  se2 :: SE_net
  se3 :: SE_net
  se4 :: SE_net
  se5 :: SE_net
  enhance :: PSPModule

definition block_at :: "int list \<Rightarrow> nat \<Rightarrow> error + nat" where
  \<comment> \<open>the number of iterations of \<open>for i in range(block[i])\<close>: none for a negative
      entry, IndexError for a missing one\<close>
  "block_at block i = (if i < length block then Inr (nat (block ! i)) else Inl IndexError)"

definition dense_blocks :: "nat \<Rightarrow> nat \<Rightarrow> error + GCRDB list" where
  \<comment> \<open>\<open>for i in range(n): append(GCRDB(c, ContextBlock2d))\<close>\<close>
  "dense_blocks n c = map_e (\<lambda>i. GCRDB_init c ContextBlock2d_cls 6 16) [0..<n]"

text \<open>
  The constructor. The names \<open>shortcutblock\<close> and \<open>GCIWTResUp\<close> are bound by the
  import statement of the model file; here they are the parameters \<open>shortcutblock_cls\<close>
  (called with the list of its positional arguments) and \<open>GCIWTResUp_cls\<close>.
  The import is from \<open>models.modules_3channel\<close>, a file that is not among the sources.
  \<open>AWNet_init\<close> binds the two names to the classes of the modules file that is, the
  binding claim C4 speaks of.
\<close>

definition AWNet_init_with ::
  "(nat list \<Rightarrow> error + shortcutblock) \<Rightarrow> (nat \<Rightarrow> GCIWTResUp) \<Rightarrow>
   nat \<Rightarrow> nat \<Rightarrow> int list \<Rightarrow> error + AWNet" where
  "AWNet_init_with shortcutblock_cls GCIWTResUp_cls in_channels out_channels block =
     and_then (block_at block 0) (\<lambda>n1.
     and_then (dense_blocks n1 64) (\<lambda>l1.
     and_then (block_at block 1) (\<lambda>n2.
     and_then (dense_blocks n2 128) (\<lambda>l2.
     and_then (block_at block 2) (\<lambda>n3.
     and_then (dense_blocks n3 256) (\<lambda>l3.
     and_then (block_at block 3) (\<lambda>n4.
     and_then (dense_blocks n4 512) (\<lambda>l4.
     and_then (block_at block 4) (\<lambda>n5.
     and_then (dense_blocks n5 1024) (\<lambda>l5.
     and_then (shortcutblock_cls [64]) (\<lambda>s1.
     and_then (shortcutblock_cls [128]) (\<lambda>s2.
     and_then (shortcutblock_cls [256]) (\<lambda>s3.
     and_then (shortcutblock_cls [512]) (\<lambda>s4.
     and_then (SE_net_init 64 64 4 True) (\<lambda>e1.
     and_then (SE_net_init 128 128 4 True) (\<lambda>e2.
     and_then (SE_net_init 256 256 4 True) (\<lambda>e3.
     and_then (SE_net_init 512 512 4 True) (\<lambda>e4.
     and_then (SE_net_init 1024 1024 4 True) (\<lambda>e5.
     Inr \<lparr>conv1 = Conv2d in_channels 64 3 1 1,
          layer1 = (l1, GCWTResDown_init 64 None),
          layer2 = (l2, GCWTResDown_init 128 None),
          layer3 = (l3, GCWTResDown_init 256 None),
          layer4 = (l4, GCWTResDown_init 512 None),
          layer5 = l5,
          layer4_up = GCIWTResUp_cls 1024,
          layer3_up = GCIWTResUp_cls 512,
          layer2_up = GCIWTResUp_cls 256,
          layer1_up = GCIWTResUp_cls 128,
          sc_x1 = s1, sc_x2 = s2, sc_x3 = s3, sc_x4 = s4,
          scale_5 = Conv2d 1024 out_channels 3 1 1,
          scale_4 = Conv2d 512 out_channels 3 1 1,
          scale_3 = Conv2d 256 out_channels 3 1 1,
          scale_2 = Conv2d 128 out_channels 3 1 1,
          final_conv = Conv2d 64 out_channels 3 1 1,
          se1 = e1, se2 = e2, se3 = e3, se4 = e4, se5 = e5,
          enhance = PSPModule_init 64 64 [1, 2, 3, 6]\<rparr>)))))))))))))))))))"

definition AWNet_init :: "nat \<Rightarrow> nat \<Rightarrow> int list \<Rightarrow> error + AWNet" where
  "AWNet_init = AWNet_init_with shortcutblock_init (\<lambda>c. GCIWTResUp_init c None)"

definition up_add ::
  "'a torch \<Rightarrow> GCIWTResUp \<Rightarrow> shortcutblock \<Rightarrow> 'a \<Rightarrow> 'a \<Rightarrow> 'a \<Rightarrow> error + 'a" where
  \<comment> \<open>\<open>up(x, x_dwt) + sc(skip)\<close>, the left operand evaluated first\<close>
  "up_add T up sc x x_dwt skip =
     and_then (GCIWTResUp_forward T up x x_dwt) (\<lambda>u.
     and_then (shortcutblock_forward T sc skip) (\<lambda>s.
     tensor_add T u s))"

definition scale_out :: "'a torch \<Rightarrow> layer \<Rightarrow> 'a \<Rightarrow> error + 'a" where
  \<comment> \<open>\<open>F.sigmoid(scale(x))\<close>\<close>
  "scale_out T scale x = and_then (layer_forward T scale x) (\<lambda>y. Inr (F_sigmoid T y))"

definition AWNet_forward ::
  "'a torch \<Rightarrow> AWNet \<Rightarrow> 'a \<Rightarrow> 'a option \<Rightarrow> 'a option \<Rightarrow>
   error + ('a \<times> 'a \<times> 'a \<times> 'a \<times> 'a) \<times> 'a" where
  "AWNet_forward T m x target teacher_latent =
     and_then (layer_forward T (conv1 m) x) (\<lambda>x1.
     and_then (and_then (SE_net_forward T (se1 m) x1) (stage_forward T (layer1 m))) (\<lambda>(x2, x2_dwt).
     and_then (and_then (SE_net_forward T (se2 m) x2) (stage_forward T (layer2 m))) (\<lambda>(x3, x3_dwt).
     and_then (and_then (SE_net_forward T (se3 m) x3) (stage_forward T (layer3 m))) (\<lambda>(x4, x4_dwt).
     and_then (and_then (SE_net_forward T (se4 m) x4) (stage_forward T (layer4 m))) (\<lambda>(x5, x5_dwt).
     and_then (and_then (SE_net_forward T (se5 m) x5) (GCRDB_Sequential T (layer5 m))) (\<lambda>x5_latent.
     and_then (scale_out T (scale_5 m) x5_latent) (\<lambda>x5_out.
     and_then (up_add T (layer4_up m) (sc_x4 m) x5_latent x5_dwt x4) (\<lambda>x4_up.
     and_then (scale_out T (scale_4 m) x4_up) (\<lambda>x4_out.
     and_then (up_add T (layer3_up m) (sc_x3 m) x4_up x4_dwt x3) (\<lambda>x3_up.
     and_then (scale_out T (scale_3 m) x3_up) (\<lambda>x3_out.
     and_then (up_add T (layer2_up m) (sc_x2 m) x3_up x3_dwt x2) (\<lambda>x2_up.
     and_then (scale_out T (scale_2 m) x2_up) (\<lambda>x2_out.
     and_then (up_add T (layer1_up m) (sc_x1 m) x2_up x2_dwt x1) (\<lambda>x1_up.
     and_then (PSPModule_forward T (enhance m) x1_up) (\<lambda>x1_up.
     and_then (scale_out T (final_conv m) x1_up) (\<lambda>out.
     Inr ((out, x2_out, x3_out, x4_out, x5_out), x5_latent)))))))))))))))))"

section \<open>Shapes\<close>

text \<open>
  The operators read on shapes: a tensor is its list of dimensions, and each operator
  follows the shape rule of the framework's documentation for batched tensors in
  \<open>N, C, H, W\<close> layout, with \<open>RuntimeError\<close> where the framework rejects the shapes.
  Values, data types and devices are not modelled.
\<close>

type_synonym shape = "nat list"

definition conv_size :: "nat \<Rightarrow> nat \<Rightarrow> nat \<Rightarrow> nat \<Rightarrow> nat" where
  "conv_size n k s p = (n + 2 * p - k) div s + 1"

fun Conv2d_shape :: "nat \<Rightarrow> nat \<Rightarrow> nat \<Rightarrow> nat \<Rightarrow> nat \<Rightarrow> shape \<Rightarrow> error + shape" where
  "Conv2d_shape i o' k s p [n, c, h, w] =
     (if c = i \<and> 0 < k \<and> 0 < s \<and> k \<le> h + 2 * p \<and> k \<le> w + 2 * p
      then Inr [n, o', conv_size h k s p, conv_size w k s p] else Inl RuntimeError)"
| "Conv2d_shape i o' k s p _ = Inl RuntimeError"

fun BatchNorm2d_shape :: "nat \<Rightarrow> shape \<Rightarrow> error + shape" where
  "BatchNorm2d_shape f [n, c, h, w] = (if c = f then Inr [n, c, h, w] else Inl RuntimeError)"
| "BatchNorm2d_shape f _ = Inl RuntimeError"

definition LayerNorm_shape :: "nat list \<Rightarrow> shape \<Rightarrow> error + shape" where
  "LayerNorm_shape ns x =
     (if length ns \<le> length x \<and> drop (length x - length ns) x = ns
      then Inr x else Inl RuntimeError)"

fun PixelShuffle_shape :: "nat \<Rightarrow> shape \<Rightarrow> error + shape" where
  "PixelShuffle_shape r [n, c, h, w] =
     (if 0 < r \<and> c mod (r * r) = 0 then Inr [n, c div (r * r), h * r, w * r]
      else Inl RuntimeError)"
| "PixelShuffle_shape r _ = Inl RuntimeError"

fun AdaptiveAvgPool2d_shape :: "nat \<Rightarrow> nat \<Rightarrow> shape \<Rightarrow> error + shape" where
  "AdaptiveAvgPool2d_shape a b [n, c, h, w] =
     (if 0 < c \<and> 0 < h \<and> 0 < w then Inr [n, c, a, b] else Inl RuntimeError)"
| "AdaptiveAvgPool2d_shape a b _ = Inl RuntimeError"

definition Softmax_shape :: "nat \<Rightarrow> shape \<Rightarrow> error + shape" where
  "Softmax_shape d x = (if d < length x then Inr x else Inl RuntimeError)"

fun upsample_shape :: "nat \<Rightarrow> nat \<Rightarrow> shape \<Rightarrow> error + shape" where
  "upsample_shape h' w' [n, c, h, w] =
     (if 0 < h \<and> 0 < w \<and> 0 < h' \<and> 0 < w' then Inr [n, c, h', w'] else Inl RuntimeError)"
| "upsample_shape h' w' _ = Inl RuntimeError"

fun cat_shape :: "shape list \<Rightarrow> nat \<Rightarrow> error + shape" where
  "cat_shape [] d = Inl RuntimeError"
| "cat_shape (x # xs) d =
     (if d < length x \<and> list_all (\<lambda>y. length y = length x \<and> y[d := 0] = x[d := 0]) xs
      then Inr (x[d := sum_list (map (\<lambda>y. y ! d) (x # xs))]) else Inl RuntimeError)"

fun broadcast_rev :: "shape \<Rightarrow> shape \<Rightarrow> shape option" where
  \<comment> \<open>broadcasting, on the dimensions listed from the last one\<close>
  "broadcast_rev [] ys = Some ys"
| "broadcast_rev (x # xs) [] = Some (x # xs)"
| "broadcast_rev (x # xs) (y # ys) =
     (if x = y \<or> y = 1 then map_option (Cons x) (broadcast_rev xs ys)
      else if x = 1 then map_option (Cons y) (broadcast_rev xs ys)
      else None)"

definition broadcast_shape :: "shape \<Rightarrow> shape \<Rightarrow> error + shape" where
  "broadcast_shape x y =
     (case broadcast_rev (rev x) (rev y) of None \<Rightarrow> Inl RuntimeError | Some s \<Rightarrow> Inr (rev s))"

fun matmul_shape :: "shape \<Rightarrow> shape \<Rightarrow> error + shape" where
  \<comment> \<open>the batched product of two 4-dimensional tensors, the only case the source has\<close>
  "matmul_shape [a1, a2, n, m] [b1, b2, m', p] =
     (if m = m' then and_then (broadcast_shape [a1, a2] [b1, b2]) (\<lambda>b. Inr (b @ [n, p]))
      else Inl RuntimeError)"
| "matmul_shape _ _ = Inl RuntimeError"

definition view_shape :: "shape \<Rightarrow> nat list \<Rightarrow> error + shape" where
  "view_shape x s = (if prod_list x = prod_list s then Inr s else Inl RuntimeError)"

definition unsqueeze_shape :: "shape \<Rightarrow> nat \<Rightarrow> error + shape" where
  "unsqueeze_shape x d = (if d \<le> length x then Inr (take d x @ [1] @ drop d x) else Inl RuntimeError)"

text \<open>
  Modelled from the spec: the classes \<open>DWT\<close> and \<open>IWT\<close> of \<open>models/utils.py\<close>, which is
  not among the sources. The spec calls them a fixed downsampling and a fixed upsampling
  operator. The self-test at the end of the modules file fixes their channel counts:
  the wavelet transform of \<open>C\<close> channels at \<open>H \<times> W\<close> (both even) is a low-frequency
  band of \<open>C\<close> channels and the coefficients of \<open>4C\<close> channels, both at
  \<open>H/2 \<times> W/2\<close>; the inverse transform takes \<open>C\<close> channels at \<open>H \<times> W\<close> to \<open>C/4\<close>
  channels at \<open>2H \<times> 2W\<close>.
\<close>

fun DWT_shape :: "shape \<Rightarrow> error + shape \<times> shape" where
  "DWT_shape [n, c, h, w] =
     (if even h \<and> even w
      then Inr ([n, c, h div 2, w div 2], [n, 4 * c, h div 2, w div 2]) else Inl RuntimeError)"
| "DWT_shape _ = Inl RuntimeError"

fun IWT_shape :: "shape \<Rightarrow> error + shape" where
  "IWT_shape [n, c, h, w] = Inr [n, c div 4, 2 * h, 2 * w]"
| "IWT_shape _ = Inl RuntimeError"

definition shape_torch :: "shape torch" where
  "shape_torch =
     \<lparr>tensor_size = (\<lambda>x. x),
      nn_Conv2d = Conv2d_shape,
      nn_BatchNorm2d = BatchNorm2d_shape,
      nn_LayerNorm = LayerNorm_shape,
      nn_PReLU = Inr,
      nn_PixelShuffle = PixelShuffle_shape,
      nn_AdaptiveAvgPool2d = AdaptiveAvgPool2d_shape,
      nn_Softmax = Softmax_shape,
      F_relu = (\<lambda>x. x),
      F_sigmoid = (\<lambda>x. x),
      F_upsample = upsample_shape,
      torch_cat = cat_shape,
      torch_matmul = matmul_shape,
      tensor_add = broadcast_shape,
      tensor_mul = broadcast_shape,
      tensor_view = view_shape,
      tensor_unsqueeze = unsqueeze_shape,
      DWT = DWT_shape,
      IWT = IWT_shape\<rparr>"

section \<open>The forward passes as the specification words them\<close>


text \<open>
  One branch of the pyramid pooling as the specification describes it: the input is
  average-pooled to \<open>size \<times> size\<close>, passed through a 1x1 convolution and upsampled
  back to \<open>h \<times> w\<close>.
\<close>

definition psp_branch :: "'a torch \<Rightarrow> nat \<Rightarrow> nat \<Rightarrow> nat \<Rightarrow> 'a \<Rightarrow> nat \<Rightarrow> error + 'a" where
  "psp_branch T features h w feats size' =
     and_then (nn_AdaptiveAvgPool2d T size' size' feats) (\<lambda>pooled.
     and_then (nn_Conv2d T features features 1 1 0 pooled) (\<lambda>conv.
     F_upsample T h w conv))"

definition PSPModule_cls :: "nat \<Rightarrow> PSPModule" where
  \<comment> \<open>the class called as \<open>PSPModule(features)\<close>, the other arguments at their
      defaults\<close>
  "PSPModule_cls features = PSPModule_init features 1024 [1, 2, 3, 6]"

section \<open>Where the errors of a forward pass come from\<close>



section \<open>Basic facts\<close>

lemma and_then_Inr [simp]: "and_then (Inr v) f = f v"
  by (simp add: and_then_def)

lemma and_then_Inl [simp]: "and_then (Inl e) f = Inl e"
  by (simp add: and_then_def)

lemma and_then_eq_Inr: "and_then r f = Inr y \<longleftrightarrow> (\<exists>v. r = Inr v \<and> f v = Inr y)"
  by (cases r) simp_all


lemma map_e_const: "f = (\<lambda>i. Inr v) \<Longrightarrow> map_e f xs = Inr (map (\<lambda>i. v) xs)"
  by (induction xs) simp_all

lemma shape_torch_simps [simp]:
  "tensor_size shape_torch x = x"
  "nn_Conv2d shape_torch = Conv2d_shape"
  "nn_BatchNorm2d shape_torch = BatchNorm2d_shape"
  "nn_LayerNorm shape_torch = LayerNorm_shape"
  "nn_PReLU shape_torch = Inr"
  "nn_PixelShuffle shape_torch = PixelShuffle_shape"
  "nn_AdaptiveAvgPool2d shape_torch = AdaptiveAvgPool2d_shape"
  "nn_Softmax shape_torch = Softmax_shape"
  "F_relu shape_torch x = x"
  "F_sigmoid shape_torch x = x"
  "F_upsample shape_torch = upsample_shape"
  "torch_cat shape_torch = cat_shape"
  "torch_matmul shape_torch = matmul_shape"
  "tensor_add shape_torch = broadcast_shape"
  "tensor_mul shape_torch = broadcast_shape"
  "tensor_view shape_torch = view_shape"
  "tensor_unsqueeze shape_torch = unsqueeze_shape"
  "DWT shape_torch = DWT_shape"
  "IWT shape_torch = IWT_shape"
  by (simp_all add: shape_torch_def)

lemma ContextBlock2d_cls_ok:
  "ContextBlock2d_cls i p =
     Inr \<lparr>cb_inplanes = i, cb_planes = p, cb_pool = ''att'', cb_fusions = [''channel_add''],
          cb_conv_mask = Some (Conv2d i 1 1 1 0), cb_softmax = Some (Softmax 2),
          cb_avg_pool = None,
          cb_channel_add_conv =
            Some [Conv2d i (p div 4) 1 1 0, LayerNorm [p div 4, 1, 1], PReLU,
                  Conv2d (p div 4) i 1 1 0],
          cb_channel_mul_conv = None\<rparr>"
  by (simp add: ContextBlock2d_cls_def ContextBlock2d_init_def fusion_conv_def floordiv_def)

lemma GCRDB_init_cls_ok: "\<exists>g. GCRDB_init c ContextBlock2d_cls n r = Inr g"
  by (simp add: GCRDB_init_def ContextBlock2d_cls_ok split: prod.split)

lemma dense_blocks_ok: "\<exists>gs. dense_blocks n c = Inr gs"
proof -
  obtain g where "GCRDB_init c ContextBlock2d_cls 6 16 = Inr g"
    using GCRDB_init_cls_ok by blast
  then have "dense_blocks n c = Inr (map (\<lambda>i. g) [0..<n])"
    unfolding dense_blocks_def by (intro map_e_const) simp
  then show ?thesis by blast
qed

lemma block_at_cases:
  "block_at block i = (if i < length block then Inr (nat (block ! i)) else Inl IndexError)"
  by (simp add: block_at_def)

section \<open>The constructor of AWNet\<close>

text \<open>
  Claim C4. Against the \<open>shortcutblock\<close> of the modules file, whose constructor has two
  required parameters, constructing \<open>AWNet\<close> fails for every choice of \<open>in_channels\<close>,
  \<open>out_channels\<close> and \<open>block\<close>: the constructor calls \<open>shortcutblock\<close> with one
  argument. With a \<open>block\<close> of at least five entries the failure is the TypeError of
  that call (a shorter \<open>block\<close> fails earlier, with IndexError); so no \<open>AWNet\<close> is ever
  built.
\<close>

theorem AWNet_init_fails:
  "(\<exists>e. AWNet_init in_channels out_channels block = Inl e) \<and>
   (5 \<le> length block \<longrightarrow> AWNet_init in_channels out_channels block = Inl TypeError)"
proof -
  have step: "\<And>n c f. (\<And>gs. \<exists>e. f gs = Inl e) \<Longrightarrow> \<exists>e. and_then (dense_blocks n c) f = Inl e"
    using dense_blocks_ok by (metis and_then_Inr)
  have step2: "\<And>i f. (\<And>n. \<exists>e. f n = Inl e) \<Longrightarrow> \<exists>e. and_then (block_at block i) f = Inl e"
    by (metis and_then_Inr and_then_Inl block_at_cases)
  have a: "\<exists>e. AWNet_init in_channels out_channels block = Inl e"
    unfolding AWNet_init_def AWNet_init_with_def
    by (intro step step2) simp
  have stepT: "\<And>n c f. (\<And>gs. f gs = Inl TypeError) \<Longrightarrow> and_then (dense_blocks n c) f = Inl TypeError"
    using dense_blocks_ok by (metis and_then_Inr)
  have b: "AWNet_init in_channels out_channels block = Inl TypeError" if "5 \<le> length block"
    unfolding AWNet_init_def AWNet_init_with_def using that
    by (auto simp add: block_at_def stepT)
  show ?thesis using a b by blast
qed

theorem AWNet_init_fails_witness:
  "AWNet_init 3 3 [2, 2, 2, 3, 4] = Inl TypeError"
  using AWNet_init_fails [of 3 3 "[2, 2, 2, 3, 4]"] by simp

section \<open>The forward pass of AWNet\<close>

text \<open>
  Claim C8. The result of \<open>AWNet.forward\<close> does not depend on the optional arguments
  \<open>target\<close> and \<open>teacher_latent\<close>: two runs on the same input with any two choices of
  them return the same result (or raise the same error).
\<close>

theorem AWNet_forward_ignores_aux:
  "AWNet_forward T m x target teacher_latent = AWNet_forward T m x target' teacher_latent'"
  by (simp add: AWNet_forward_def)
section \<open>Shapes of the dense block\<close>

lemma conv_size_same [simp]:
  "0 < h \<Longrightarrow> conv_size h 3 (Suc 0) (Suc 0) = h"
  "0 < h \<Longrightarrow> conv_size h (Suc 0) (Suc 0) 0 = h"
  by (simp_all add: conv_size_def)

lemma conv_size_half [simp]:
  "0 < h \<Longrightarrow> even h \<Longrightarrow> conv_size h 3 2 (Suc 0) = h div 2"
  by (auto simp add: conv_size_def elim!: evenE)

lemma broadcast_same [simp]: "broadcast_shape [n, c, h, w] [n, c, h, w] = Inr [n, c, h, w]"
  by (simp add: broadcast_shape_def)

lemma broadcast_channel [simp]:
  "broadcast_shape [n, c, h, w] [n, c, Suc 0, Suc 0] = Inr [n, c, h, w]"
  by (simp add: broadcast_shape_def)

lemma cat_two [simp]:
  "cat_shape [[n, c, h, w], [n, c', h, w]] (Suc 0) = Inr [n, c + c', h, w]"
  by simp

lemma MakeDense_shape:
  assumes "0 < h" "0 < w"
  shows "MakeDense_forward shape_torch (MakeDense_init c g 3) [n, c, h, w] = Inr [n, c + g, h, w]"
  using assms by (simp add: MakeDense_forward_def MakeDense_init_def)

lemma dense_modules_shape:
  assumes "0 < h" "0 < w"
  shows "dense_modules k c g = (ms, c') \<Longrightarrow>
         c' = c + k * g \<and> MakeDense_Sequential shape_torch ms [n, c, h, w] = Inr [n, c', h, w]"
proof (induction k arbitrary: c ms)
  case 0
  then show ?case by simp
next
  case (Suc k)
  obtain ms' where d: "dense_modules k (c + g) g = (ms', c')"
    and ms: "ms = MakeDense_init c g 3 # ms'"
    using Suc.prems by (auto split: prod.splits)
  from Suc.IH [OF d] show ?case
    using assms by (simp add: ms MakeDense_shape algebra_simps)
qed

lemma spatial_pool_att_shape:
  assumes "cb_pool m = ''att''" "cb_conv_mask m = Some (Conv2d c 1 1 1 0)"
    "cb_softmax m = Some (Softmax 2)" "0 < h" "0 < w"
  shows "spatial_pool shape_torch m [n, c, h, w] = Inr [n, c, 1, 1]"
  using assms
  by (simp add: spatial_pool_def view_shape_def unsqueeze_shape_def attr_def Softmax_shape_def
      broadcast_shape_def)

lemma fusion_conv_shape:
  "Sequential_forward shape_torch
     [Conv2d c p (Suc 0) (Suc 0) 0, LayerNorm [p, Suc 0, Suc 0], PReLU,
      Conv2d p c (Suc 0) (Suc 0) 0] [n, c, Suc 0, Suc 0] = Inr [n, c, Suc 0, Suc 0]"
  by (simp add: LayerNorm_shape_def)

lemma spatial_pool_avg_shape:
  assumes "cb_pool m \<noteq> ''att''" "cb_avg_pool m = Some (AdaptiveAvgPool2d 1 1)"
    "0 < c" "0 < h" "0 < w"
  shows "spatial_pool shape_torch m [n, c, h, w] = Inr [n, c, 1, 1]"
  using assms by (simp add: spatial_pool_def attr_def)

lemma ContextBlock2d_init_fields:
  assumes "ContextBlock2d_init i p pool fusions ratio = Inr m"
  shows "cb_pool m = pool"
    and "pool = ''att'' \<Longrightarrow> cb_conv_mask m = Some (Conv2d i 1 1 1 0) \<and> cb_softmax m = Some (Softmax 2)"
    and "pool \<noteq> ''att'' \<Longrightarrow> cb_avg_pool m = Some (AdaptiveAvgPool2d 1 1)"
    and "cb_channel_add_conv m = None \<or> cb_channel_add_conv m =
           Some [Conv2d i (p div ratio) 1 1 0, LayerNorm [p div ratio, 1, 1], PReLU,
                 Conv2d (p div ratio) i 1 1 0]"
    and "cb_channel_mul_conv m = None \<or> cb_channel_mul_conv m =
           Some [Conv2d i (p div ratio) 1 1 0, LayerNorm [p div ratio, 1, 1], PReLU,
                 Conv2d (p div ratio) i 1 1 0]"
  using assms
  by (auto simp add: ContextBlock2d_init_def fusion_conv_def floordiv_def and_then_eq_Inr
      split: if_splits)

lemma ContextBlock2d_init_shape:
  assumes init: "ContextBlock2d_init c p pool fusions ratio = Inr m"
    and pos: "0 < c" "0 < h" "0 < w"
  shows "ContextBlock2d_forward shape_torch m [n, c, h, w] = Inr [n, c, h, w]"
proof -
  note f = ContextBlock2d_init_fields [OF init]
  have sp: "spatial_pool shape_torch m [n, c, h, w] = Inr [n, c, 1, 1]"
  proof (cases "pool = ''att''")
    case True
    then show ?thesis using f(1,2) pos by (intro spatial_pool_att_shape) simp_all
  next
    case False
    then show ?thesis using f(1,3) pos by (intro spatial_pool_avg_shape) simp_all
  qed
  show ?thesis
    unfolding ContextBlock2d_forward_def sp
    using f(4,5) by (auto simp add: fusion_conv_shape simp del: Sequential_forward.simps)
qed

lemma GCRDB_forward_shape:
  assumes "GCRDB_init in_channels (\<lambda>inplanes planes. ContextBlock2d_init inplanes planes pool fusions ratio)
             num_dense_layer growth_rate = Inr m"
    and "0 < in_channels" and "0 < h" and "0 < w"
  shows "GCRDB_forward shape_torch m [n, in_channels, h, w] = Inr [n, in_channels, h, w]"
proof -
  obtain ms c' att where d: "dense_modules num_dense_layer in_channels growth_rate = (ms, c')"
    and att: "ContextBlock2d_init in_channels in_channels pool fusions ratio = Inr att"
    and m: "m = \<lparr>residual_dense_layers = ms, conv_1x1 = Conv2d c' in_channels 1 1 0,
                  final_att = att\<rparr>"
    using assms(1) by (auto simp add: GCRDB_init_def and_then_eq_Inr split: prod.splits)
  have seq: "MakeDense_Sequential shape_torch ms [n, in_channels, h, w] = Inr [n, c', h, w]"
    using dense_modules_shape [OF assms(3,4) d] by simp
  have cb: "ContextBlock2d_forward shape_torch att [n, in_channels, h, w] = Inr [n, in_channels, h, w]"
    using ContextBlock2d_init_shape [OF att assms(2,3,4)] .
  show ?thesis
    using assms(3,4) by (simp add: GCRDB_forward_def m seq cb)
qed

lemma ContextBlock2d_cls_eq:
  "ContextBlock2d_cls = (\<lambda>inplanes planes. ContextBlock2d_init inplanes planes ''att'' [''channel_add''] 4)"
  by (simp add: fun_eq_iff ContextBlock2d_cls_def)


text \<open>
  Claim C9. \<open>GCRDB\<close> preserves the shape of its input: on an input of
  \<open>in_channels\<close> channels (with at least one channel, row and column) the dense layers
  grow the channel count by \<open>growth_rate\<close> per layer, the 1x1 convolution projects
  \<open>in_channels + num_dense_layer * growth_rate\<close> channels back to \<open>in_channels\<close>, and
  the output of \<open>forward\<close> has the shape of the input. The attention block is
  \<open>ContextBlock2d\<close> with any accepted choice of \<open>pool\<close>, \<open>fusions\<close> and \<open>ratio\<close>.
\<close>

theorem GCRDB_preserves_shape:
  assumes "GCRDB_init in_channels
             (\<lambda>inplanes planes. ContextBlock2d_init inplanes planes pool fusions ratio)
             num_dense_layer growth_rate = Inr m"
    and "0 < in_channels" and "0 < h" and "0 < w"
  shows "MakeDense_Sequential shape_torch (residual_dense_layers m) [n, in_channels, h, w] =
           Inr [n, in_channels + num_dense_layer * growth_rate, h, w] \<and>
         conv_1x1 m = Conv2d (in_channels + num_dense_layer * growth_rate) in_channels 1 1 0 \<and>
         GCRDB_forward shape_torch m [n, in_channels, h, w] = Inr [n, in_channels, h, w]"
proof -
  obtain ms c' where d: "dense_modules num_dense_layer in_channels growth_rate = (ms, c')"
    and ms: "residual_dense_layers m = ms" and cv: "conv_1x1 m = Conv2d c' in_channels 1 1 0"
    using assms(1) by (auto simp add: GCRDB_init_def and_then_eq_Inr split: prod.splits)
  from dense_modules_shape [OF assms(3,4) d, of n] GCRDB_forward_shape [OF assms, of n]
  show ?thesis by (simp add: ms cv)
qed

theorem GCRDB_preserves_shape_witness:
  "\<exists>m. GCRDB_init 64 ContextBlock2d_cls 6 16 = Inr m \<and>
       conv_1x1 m = Conv2d 160 64 1 1 0 \<and>
       GCRDB_forward shape_torch m [1, 64, 8, 8] = Inr [1, 64, 8, 8]"
proof -
  obtain m where m: "GCRDB_init 64 ContextBlock2d_cls 6 16 = Inr m"
    using GCRDB_init_cls_ok by blast
  from GCRDB_preserves_shape [OF m [unfolded ContextBlock2d_cls_eq], of 8 8 1]
  show ?thesis using m by simp
qed



section \<open>Data flow of the modules\<close>





text \<open>
  Claim C5. The wavelet transform is the downsampling operator and the inverse transform
  the upsampling operator of the two wavelet blocks. \<open>GCWTResDown.forward\<close> applies
  \<open>DWT\<close> to its input and returns the pair of (the concatenation of the stem, which
  starts with a convolution of stride 2, with a 1x1 convolution of the low-frequency
  band) and the wavelet coefficients. \<open>GCIWTResUp.forward\<close> applies \<open>IWT\<close> to the
  supplied coefficients (after their 1x1 convolution \<open>pre_conv\<close>) and fuses the result
  (concatenation and a 1x1 convolution) with the main path, whose stem starts with a
  pixel shuffle of factor 2. This holds for every interpretation of the operators.
\<close>

theorem wavelet_blocks_dataflow:
  "hd (down_stem (GCWTResDown_init c norm)) = Conv2d c c 3 2 1 \<and>
   (GCWTResDown_forward T (GCWTResDown_init c norm) x = Inr r \<longleftrightarrow>
      (\<exists>stem xLL dwt res out.
         Sequential_forward T (down_stem (GCWTResDown_init c norm)) x = Inr stem \<and>
         DWT T x = Inr (xLL, dwt) \<and>
         nn_Conv2d T c c 1 1 0 xLL = Inr res \<and>
         torch_cat T [stem, res] 1 = Inr out \<and>
         r = (out, dwt))) \<and>
   hd (up_stem (GCIWTResUp_init c norm)) = PixelShuffle 2 \<and>
   (GCIWTResUp_forward T (GCIWTResUp_init c norm) y y_dwt = Inr up \<longleftrightarrow>
      (\<exists>y' stem coeffs iwt iwt' fused.
         nn_Conv2d T (c div 2) c 1 1 0 y = Inr y' \<and>
         Sequential_forward T (up_stem (GCIWTResUp_init c norm)) y' = Inr stem \<and>
         nn_Conv2d T c c 1 1 0 y_dwt = Inr coeffs \<and>
         IWT T coeffs = Inr iwt \<and>
         nn_Conv2d T (c div 4) (c div 4) 1 1 0 iwt = Inr iwt' \<and>
         torch_cat T [stem, iwt'] 1 = Inr fused \<and>
         nn_Conv2d T (c div 2) (c div 4) 1 1 0 fused = Inr up))"
proof -
  have a: "hd (down_stem (GCWTResDown_init c norm)) = Conv2d c c 3 2 1"
    by (simp add: GCWTResDown_init_def split: option.split)
  have b: "hd (up_stem (GCIWTResUp_init c norm)) = PixelShuffle 2"
    by (simp add: GCIWTResUp_init_def split: option.split)
  have cv: "down_conv1x1 (GCWTResDown_init c norm) = Conv2d c c 1 1 0"
    by (simp add: GCWTResDown_init_def)
  have d: "GCWTResDown_forward T (GCWTResDown_init c norm) x = Inr r \<longleftrightarrow>
      (\<exists>stem xLL dwt res out.
         Sequential_forward T (down_stem (GCWTResDown_init c norm)) x = Inr stem \<and>
         DWT T x = Inr (xLL, dwt) \<and>
         nn_Conv2d T c c 1 1 0 xLL = Inr res \<and>
         torch_cat T [stem, res] 1 = Inr out \<and>
         r = (out, dwt))"
    unfolding GCWTResDown_forward_def cv
    by (auto simp add: and_then_eq_Inr)
  have uf: "up_pre_conv_stem (GCIWTResUp_init c norm) = Conv2d (c div 2) c 1 1 0"
    "up_pre_conv (GCIWTResUp_init c norm) = Conv2d c c 1 1 0"
    "up_post_conv (GCIWTResUp_init c norm) = Conv2d (c div 4) (c div 4) 1 1 0"
    "up_last_conv (GCIWTResUp_init c norm) = Conv2d (c div 2) (c div 4) 1 1 0"
    by (simp_all add: GCIWTResUp_init_def)
  have u: "GCIWTResUp_forward T (GCIWTResUp_init c norm) y y_dwt = Inr up \<longleftrightarrow>
      (\<exists>y' stem coeffs iwt iwt' fused.
         nn_Conv2d T (c div 2) c 1 1 0 y = Inr y' \<and>
         Sequential_forward T (up_stem (GCIWTResUp_init c norm)) y' = Inr stem \<and>
         nn_Conv2d T c c 1 1 0 y_dwt = Inr coeffs \<and>
         IWT T coeffs = Inr iwt \<and>
         nn_Conv2d T (c div 4) (c div 4) 1 1 0 iwt = Inr iwt' \<and>
         torch_cat T [stem, iwt'] 1 = Inr fused \<and>
         nn_Conv2d T (c div 2) (c div 4) 1 1 0 fused = Inr up)"
    unfolding GCIWTResUp_forward_def uf
    by (simp add: and_then_eq_Inr)
  show ?thesis using a b d u by blast
qed


theorem wavelet_blocks_dataflow_witness:
  "GCWTResDown_forward shape_torch (GCWTResDown_init 16 None) [1, 16, 8, 8] =
     Inr ([1, 32, 4, 4], [1, 64, 4, 4]) \<and>
   GCIWTResUp_forward shape_torch (GCIWTResUp_init 16 None) [1, 8, 4, 4] [1, 16, 4, 4] =
     Inr [1, 4, 8, 8]"
  using wavelet_blocks_dataflow [of 16 None shape_torch "[1, 16, 8, 8]"
      "([1, 32, 4, 4], [1, 64, 4, 4])" "[1, 8, 4, 4]" "[1, 16, 4, 4]" "[1, 4, 8, 8]"]
  by (simp add: GCWTResDown_init_def GCIWTResUp_init_def conv_size_def)

lemma map_e_map: "map_e f (map g xs) = map_e (\<lambda>x. f (g x)) xs"
  by (induction xs) simp_all

lemma map_e_length: "map_e f xs = Inr ys \<Longrightarrow> length ys = length xs"
  by (induction xs arbitrary: ys) (auto simp add: and_then_eq_Inr)

text \<open>
  Claim C7. \<open>PSPModule\<close> aggregates pooled features of several scales: on a feature map
  of spatial size \<open>h \<times> w\<close>, \<open>forward\<close> average-pools the input to each configured size
  (1, 2, 3 and 6 by default), applies a 1x1 convolution to each pooled map, upsamples
  each back to \<open>h \<times> w\<close>, concatenates these \<open>len(sizes)\<close> maps, followed by the input
  itself, along the channel dimension, and returns the ReLU of a 1x1 bottleneck
  convolution of the concatenation. This holds for every interpretation of the operators.
\<close>

theorem PSPModule_forward_dataflow:
  assumes "tensor_size T feats = [n, c, h, w]"
  shows "PSPModule_forward T (PSPModule_init features out_features sizes) feats =
           and_then (map_e (psp_branch T features h w feats) sizes) (\<lambda>ups.
           and_then (torch_cat T (ups @ [feats]) 1) (\<lambda>priors.
           and_then (nn_Conv2d T (features * (length sizes + 1)) out_features 1 1 0 priors)
             (\<lambda>bottle. Inr (F_relu T bottle)))) \<and>
         (\<forall>ups. map_e (psp_branch T features h w feats) sizes = Inr ups \<longrightarrow>
            length ups = length sizes) \<and>
         PSPModule_cls features = PSPModule_init features 1024 [1, 2, 3, 6]"
proof -
  have "(\<lambda>x. and_then (Sequential_forward T (make_stage features x) feats) (F_upsample T h w)) =
        psp_branch T features h w feats"
    by (simp add: fun_eq_iff make_stage_def psp_branch_def and_then_def split: sum.splits)
  then show ?thesis
    using assms
    by (simp add: PSPModule_forward_def PSPModule_init_def map_e_map map_e_length
        PSPModule_cls_def)
qed

theorem PSPModule_forward_dataflow_witness:
  "PSPModule_forward shape_torch (PSPModule_init 4 5 [1, 2, 3, 6]) [1, 4, 6, 6] = Inr [1, 5, 6, 6]"
  using PSPModule_forward_dataflow [of shape_torch "[1, 4, 6, 6]" 1 4 6 6 4 5 "[1, 2, 3, 6]"]
  by (simp add: psp_branch_def conv_size_def)

section \<open>Shapes of the other modules\<close>

lemma SE_net_shape:
  assumes "SE_net_init c c' r True = Inr m" "0 < c" "0 < h" "0 < w"
  shows "SE_net_forward shape_torch m [n, c, h, w] = Inr [n, c', h, w]"
  using assms
  by (auto simp add: SE_net_init_def SE_net_forward_def floordiv_def broadcast_shape_def
      split: if_splits)

lemma GCWTResDown_shape:
  assumes "0 < h" "0 < w" "even h" "even w"
  shows "GCWTResDown_forward shape_torch (GCWTResDown_init c None) [n, c, h, w] =
           Inr ([n, 2 * c, h div 2, w div 2], [n, 4 * c, h div 2, w div 2])"
proof -
  have "0 < h div 2" "0 < w div 2" using assms by (auto elim!: evenE)
  then show ?thesis
    using assms by (simp add: GCWTResDown_forward_def GCWTResDown_init_def)
qed

lemma GCIWTResUp_shape:
  assumes "0 < h" "0 < w"
  shows "GCIWTResUp_forward shape_torch (GCIWTResUp_init (4 * q) None)
           [n, 2 * q, h, w] [n, 4 * q, h, w] = Inr [n, q, 2 * h, 2 * w]"
proof -
  have "4 * q div 2 = 2 * q" by simp
  then show ?thesis
    using assms by (simp add: GCIWTResUp_forward_def GCIWTResUp_init_def mult.commute)
qed

lemma shortcutblock_shape:
  assumes "shortcutblock_init [c, c] = Inr s" "0 < c" "0 < h" "0 < w"
  shows "shortcutblock_forward shape_torch s [n, c, h, w] = Inr [n, c, h, w]"
proof -
  obtain se where se: "SE_net_init c c 4 True = Inr se"
    and s: "s = \<lparr>sc_conv1 = Conv2d c c 3 1 1, sc_conv2 = Conv2d c c 3 1 1, sc_se = se\<rparr>"
    using assms(1) by (auto simp add: and_then_eq_Inr)
  show ?thesis
    using assms(2-4) by (simp add: shortcutblock_forward_def s SE_net_shape [OF se])
qed

lemma psp_branch_shape:
  assumes "0 < c" "0 < h" "0 < w" "0 < k"
  shows "psp_branch shape_torch c h w [n, c, h, w] k = Inr [n, c, h, w]"
  using assms by (simp add: psp_branch_def)

lemma map_e_all: "(\<And>x. x \<in> set xs \<Longrightarrow> f x = Inr v) \<Longrightarrow> map_e f xs = Inr (map (\<lambda>x. v) xs)"
  by (induction xs) simp_all

lemma cat_shape_channels:
  "cat_shape (replicate k [n, c, h, w] @ [[n, c, h, w]]) (Suc 0) = Inr [n, c * (k + 1), h, w]"
proof -
  have "replicate k [n, c, h, w] @ [[n, c, h, w]] = [n, c, h, w] # replicate k [n, c, h, w]"
    by (simp add: replicate_append_same)
  moreover have "sum_list (map (\<lambda>y. y ! Suc 0) (replicate k [n, c, h, w])) = k * c"
    by (induction k) simp_all
  ultimately show ?thesis by (simp add: list_all_iff)
qed

lemma PSPModule_shape:
  assumes "0 < c" "0 < h" "0 < w" "\<And>k. k \<in> set sizes \<Longrightarrow> 0 < k"
  shows "PSPModule_forward shape_torch (PSPModule_init c c' sizes) [n, c, h, w] = Inr [n, c', h, w]"
proof -
  have st: "(\<lambda>x. and_then (Sequential_forward shape_torch (make_stage c x) [n, c, h, w])
              (upsample_shape h w)) = psp_branch shape_torch c h w [n, c, h, w]"
    by (simp add: fun_eq_iff make_stage_def psp_branch_def and_then_def split: sum.splits)
  have ups: "map_e (psp_branch shape_torch c h w [n, c, h, w]) sizes =
             Inr (replicate (length sizes) [n, c, h, w])"
    using map_e_all [of sizes "psp_branch shape_torch c h w [n, c, h, w]" "[n, c, h, w]"]
      psp_branch_shape [OF assms(1-3)] assms(4)
    by (simp add: map_replicate_const)
  show ?thesis
    using assms(2,3)
    by (simp add: PSPModule_forward_def PSPModule_init_def map_e_map st ups cat_shape_channels
        del: cat_shape.simps)
qed

section \<open>Errors of constructors and forward passes\<close>





































end
